theory Spec2Isabelle
  imports Main "HOL-Library.Sublist"
begin

section \<open>The credential router of the SSI service\<close>

text \<open>
  A shallow embedding of \<^verbatim>\<open>pkg/server/router/credential.go\<close>. Every handler of the
  Go file becomes a function from the world before the call to the handler's outcome
  and the world after it. The world holds what a handler can change: the state of the
  Credential Service, the list of service methods invoked so far, and the entries
  written through logrus. The packages the handlers call but that are declared
  elsewhere (\<^verbatim>\<open>framework\<close>, \<^verbatim>\<open>util\<close>, the credential service) are arguments of the
  model, so every theorem holds for each implementation of them.
\<close>

subsection \<open>Errors and status codes\<close>

text \<open>
  Go's \<^verbatim>\<open>error\<close> values, as built by \<^verbatim>\<open>errors.New\<close> and \<^verbatim>\<open>errors.Wrap\<close> of
  \<^verbatim>\<open>github.com/pkg/errors\<close>: a wrapped error prints its message, a colon and the
  message of its cause.
\<close>

datatype go_error = errors_New string | errors_Wrap go_error string

fun Error :: "go_error \<Rightarrow> string" where
  "Error (errors_New msg) = msg"
| "Error (errors_Wrap err msg) = msg @ '': '' @ Error err"

text \<open>The constants of \<^verbatim>\<open>net/http\<close> the handlers use.\<close>

definition StatusOK :: int where
  "StatusOK = 200"

definition StatusCreated :: int where
  "StatusCreated = 201"

definition StatusBadRequest :: int where
  "StatusBadRequest = 400"

definition StatusInternalServerError :: int where
  "StatusInternalServerError = 500"

text \<open>
  Modelled from the spec: \<^verbatim>\<open>framework.RequestError\<close>, \<^verbatim>\<open>framework.NewRequestError\<close>
  and \<^verbatim>\<open>framework.NewRequestErrorMsg\<close> are declared outside this file. A request
  error is an error together with the status code it is surfaced with; the
  message-only constructor makes the error from the message.
\<close>

record RequestError =
  Err :: go_error
  Status :: int

definition NewRequestError :: "go_error \<Rightarrow> int \<Rightarrow> RequestError" where
  "NewRequestError err status = \<lparr>Err = err, Status = status\<rparr>"

definition NewRequestErrorMsg :: "string \<Rightarrow> int \<Rightarrow> RequestError" where
  "NewRequestErrorMsg msg status = \<lparr>Err = errors_New msg, Status = status\<rparr>"

subsection \<open>Credentials and the Credential Service\<close>

text \<open>
  Modelled from the spec: the SDK's \<^verbatim>\<open>VerifiableCredential\<close> is opaque to the router,
  which reads its \<^verbatim>\<open>ID\<close> only. \<open>Rest\<close> stands for all its other fields.
\<close>

record VerifiableCredential =
  ID :: string
  Rest :: string

text \<open>
  The request and response types of package \<^verbatim>\<open>credential\<close>, with the fields the router
  writes and reads. \<open>'v\<close> is the type of claim values (\<^verbatim>\<open>interface{}\<close>); a Go map can be
  \<^verbatim>\<open>nil\<close>, which is \<open>None\<close> here.
\<close>

record 'v credential_CreateCredentialRequest =
  Issuer :: string
  Subject :: string
  Context :: string
  JSONSchema :: string
  Data :: "(string \<rightharpoonup> 'v) option"
  Expiry :: string

record credential_CreateCredentialResponse =
  Credential :: VerifiableCredential

datatype credential_GetCredentialRequest = GetCredentialRequest string

record credential_GetCredentialResponse =
  Credential :: VerifiableCredential

datatype credential_GetCredentialByIssuerRequest = GetCredentialByIssuerRequest string

datatype credential_GetCredentialBySubjectRequest = GetCredentialBySubjectRequest string

datatype credential_GetCredentialBySchemaRequest = GetCredentialBySchemaRequest string

record credential_GetCredentialsResponse =
  Credentials :: "VerifiableCredential list"

datatype credential_DeleteCredentialRequest = DeleteCredentialRequest string

text \<open>
  The Credential Service: each method takes its request and the service's state \<open>'s\<close>, and
  returns an error or its response, and the state after the call. A method that
  returns a \<^verbatim>\<open>nil\<close> error returns a response: the handlers read the response without a
  \<^verbatim>\<open>nil\<close> check.
\<close>

record ('s, 'v) Service =
  CreateCredential ::
    "'v credential_CreateCredentialRequest \<Rightarrow> 's \<Rightarrow> (go_error + credential_CreateCredentialResponse) \<times> 's"
  GetCredential ::
    "credential_GetCredentialRequest \<Rightarrow> 's \<Rightarrow> (go_error + credential_GetCredentialResponse) \<times> 's"
  GetCredentialsByIssuer ::
    "credential_GetCredentialByIssuerRequest \<Rightarrow> 's \<Rightarrow> (go_error + credential_GetCredentialsResponse) \<times> 's"
  GetCredentialsBySubject ::
    "credential_GetCredentialBySubjectRequest \<Rightarrow> 's \<Rightarrow> (go_error + credential_GetCredentialsResponse) \<times> 's"
  GetCredentialsBySchema ::
    "credential_GetCredentialBySchemaRequest \<Rightarrow> 's \<Rightarrow> (go_error + credential_GetCredentialsResponse) \<times> 's"
  DeleteCredential ::
    "credential_DeleteCredentialRequest \<Rightarrow> 's \<Rightarrow> go_error option \<times> 's"

subsection \<open>The world a handler runs in\<close>

datatype 'v service_call =
    Called_CreateCredential "'v credential_CreateCredentialRequest"
  | Called_GetCredential credential_GetCredentialRequest
  | Called_GetCredentialsByIssuer credential_GetCredentialByIssuerRequest
  | Called_GetCredentialsBySubject credential_GetCredentialBySubjectRequest
  | Called_GetCredentialsBySchema credential_GetCredentialBySchemaRequest
  | Called_DeleteCredential credential_DeleteCredentialRequest

text \<open>
  A logrus entry at level error: the error attached with \<^verbatim>\<open>WithError\<close>, when there is
  one, and the message.
\<close>

datatype log_entry = ErrorEntry "go_error option" string

record ('s, 'v) world =
  store :: 's
  calls :: "'v service_call list"
  logged :: "log_entry list"

definition logrus_Error :: "string \<Rightarrow> ('s, 'v) world \<Rightarrow> ('s, 'v) world" where
  "logrus_Error msg \<sigma> = \<sigma>\<lparr>logged := logged \<sigma> @ [ErrorEntry None msg]\<rparr>"

definition logrus_WithError_Error :: "go_error \<Rightarrow> string \<Rightarrow> ('s, 'v) world \<Rightarrow> ('s, 'v) world" where
  "logrus_WithError_Error err msg \<sigma> = \<sigma>\<lparr>logged := logged \<sigma> @ [ErrorEntry (Some err) msg]\<rparr>"

text \<open>
  Invoking a method of the service: the method runs on the service's state, and the
  invocation is recorded.
\<close>

definition invoke :: "'v service_call \<Rightarrow> ('s \<Rightarrow> 'a \<times> 's) \<Rightarrow> ('s, 'v) world \<Rightarrow> 'a \<times> ('s, 'v) world" where
  "invoke c m \<sigma> =
     (case m (store \<sigma>) of
        (res, s') \<Rightarrow> (res, \<sigma>\<lparr>store := s', calls := calls \<sigma> @ [c]\<rparr>))"

subsection \<open>The router's types\<close>

definition IssuerParam :: string where
  "IssuerParam = ''issuer''"

definition SubjectParam :: string where
  "SubjectParam = ''subject''"

definition SchemaParam :: string where
  "SchemaParam = ''schema''"

text \<open>
  Modelled from the spec: \<^verbatim>\<open>IDParam\<close> is declared in another file of package
  \<^verbatim>\<open>router\<close>; it names the path parameter \<^verbatim>\<open>id\<close>.
\<close>

definition IDParam :: string where
  "IDParam = ''id''"

record ('s, 'v) CredentialRouter =
  service :: "('s, 'v) Service"

record 'v CreateCredentialRequest =
  Issuer :: string
  Subject :: string
  Context :: string
  Schema :: string
  Data :: "(string \<rightharpoonup> 'v) option"
  Expiry :: string

record CreateCredentialResponse =
  Credential :: VerifiableCredential

record GetCredentialResponse =
  ID :: string
  Credential :: VerifiableCredential

record GetCredentialsResponse =
  Credentials :: "VerifiableCredential list"

text \<open>
  What a handler hands to \<^verbatim>\<open>framework.Respond\<close>: one of the three response structs, or
  \<^verbatim>\<open>nil\<close>.
\<close>

datatype response_data =
    Created CreateCredentialResponse
  | Got GetCredentialResponse
  | Listed GetCredentialsResponse
  | Nil_data

record response =
  payload :: response_data
  code :: int

text \<open>
  A handler returns a request error, or \<^verbatim>\<open>nil\<close> after the response has been written.
\<close>

type_synonym outcome = "RequestError + response"

text \<open>
  Modelled from the spec: \<^verbatim>\<open>framework.Respond\<close> is declared outside this file; it is the
  response-writing step that accepts a payload and a status code. A handler returns
  what \<^verbatim>\<open>Respond\<close> returns; the model keeps the payload and the status code handed to it.
\<close>

definition Respond :: "response_data \<Rightarrow> int \<Rightarrow> outcome" where
  "Respond data status = Inr \<lparr>payload = data, code = status\<rparr>"

text \<open>
  The functions of \<^verbatim>\<open>framework\<close> and \<^verbatim>\<open>util\<close> that read the request, declared outside
  this file and taken as they come: \<open>'c\<close> is the type of contexts and \<open>'r\<close> the type of
  HTTP requests. \<^verbatim>\<open>Decode\<close> returns its error or the request it has filled in;
  \<^verbatim>\<open>GetParam\<close> and \<^verbatim>\<open>GetQueryValue\<close> return a \<^verbatim>\<open>*string\<close>, \<open>None\<close> for \<^verbatim>\<open>nil\<close>.
\<close>

record ('c, 'r, 'v) environment =
  framework_Decode :: "'r \<Rightarrow> go_error + 'v CreateCredentialRequest"
  framework_GetParam :: "'c \<Rightarrow> string \<Rightarrow> string option"
  framework_GetQueryValue :: "'r \<Rightarrow> string \<Rightarrow> string option"
  util_SanitizeLog :: "string \<Rightarrow> string"

subsection \<open>The request translator\<close>

definition ToServiceRequest :: "'v CreateCredentialRequest \<Rightarrow> 'v credential_CreateCredentialRequest" where
  "ToServiceRequest c =
     \<lparr>credential_CreateCredentialRequest.Issuer = CreateCredentialRequest.Issuer c,
      credential_CreateCredentialRequest.Subject = CreateCredentialRequest.Subject c,
      credential_CreateCredentialRequest.Context = CreateCredentialRequest.Context c,
      credential_CreateCredentialRequest.JSONSchema = CreateCredentialRequest.Schema c,
      credential_CreateCredentialRequest.Data = CreateCredentialRequest.Data c,
      credential_CreateCredentialRequest.Expiry = CreateCredentialRequest.Expiry c\<rparr>"

subsection \<open>The handlers\<close>

definition CreateCredential ::
  "('c, 'r, 'v) environment \<Rightarrow> ('s, 'v) CredentialRouter \<Rightarrow> 'c \<Rightarrow> 'r \<Rightarrow> ('s, 'v) world
    \<Rightarrow> outcome \<times> ('s, 'v) world" where
  "CreateCredential env cr ctx r \<sigma> =
     (case framework_Decode env r of
        Inl err \<Rightarrow>
          (let errMsg = ''invalid create credential request'' in
           (Inl (NewRequestError (errors_Wrap err errMsg) StatusBadRequest),
            logrus_WithError_Error err errMsg \<sigma>))
      | Inr request \<Rightarrow>
          (let req = ToServiceRequest request in
           case invoke (Called_CreateCredential req) (Service.CreateCredential (service cr) req) \<sigma> of
             (Inl err, \<sigma>') \<Rightarrow>
               (let errMsg = ''could not create credential'' in
                (Inl (NewRequestError (errors_Wrap err errMsg) StatusInternalServerError),
                 logrus_WithError_Error err errMsg \<sigma>'))
           | (Inr createCredentialResponse, \<sigma>') \<Rightarrow>
               (let resp = \<lparr>CreateCredentialResponse.Credential =
                             credential_CreateCredentialResponse.Credential createCredentialResponse\<rparr> in
                (Respond (Created resp) StatusCreated, \<sigma>'))))"

definition GetCredential ::
  "('c, 'r, 'v) environment \<Rightarrow> ('s, 'v) CredentialRouter \<Rightarrow> 'c \<Rightarrow> 'r \<Rightarrow> ('s, 'v) world
    \<Rightarrow> outcome \<times> ('s, 'v) world" where
  "GetCredential env cr ctx r \<sigma> =
     (case framework_GetParam env ctx IDParam of
        None \<Rightarrow>
          (let errMsg = ''cannot get credential without ID parameter'' in
           (Inl (NewRequestErrorMsg errMsg StatusBadRequest), logrus_Error errMsg \<sigma>))
      | Some id' \<Rightarrow>
          (case invoke (Called_GetCredential (GetCredentialRequest id'))
                  (Service.GetCredential (service cr) (GetCredentialRequest id')) \<sigma> of
             (Inl err, \<sigma>') \<Rightarrow>
               (let errMsg = ''could not get credential with id: '' @ id' in
                (Inl (NewRequestError (errors_Wrap err errMsg) StatusBadRequest),
                 logrus_WithError_Error err errMsg \<sigma>'))
           | (Inr gotCredential, \<sigma>') \<Rightarrow>
               (let resp =
                  \<lparr>GetCredentialResponse.ID =
                     VerifiableCredential.ID (credential_GetCredentialResponse.Credential gotCredential),
                   GetCredentialResponse.Credential =
                     credential_GetCredentialResponse.Credential gotCredential\<rparr> in
                (Respond (Got resp) StatusOK, \<sigma>'))))"

definition getCredentialsByIssuer ::
  "('c, 'r, 'v) environment \<Rightarrow> ('s, 'v) CredentialRouter \<Rightarrow> string \<Rightarrow> 'c \<Rightarrow> 'r \<Rightarrow> ('s, 'v) world
    \<Rightarrow> outcome \<times> ('s, 'v) world" where
  "getCredentialsByIssuer env cr issuer ctx r \<sigma> =
     (case invoke (Called_GetCredentialsByIssuer (GetCredentialByIssuerRequest issuer))
             (Service.GetCredentialsByIssuer (service cr) (GetCredentialByIssuerRequest issuer)) \<sigma> of
        (Inl err, \<sigma>') \<Rightarrow>
          (let errMsg = ''could not get credentials for issuer: '' @ util_SanitizeLog env issuer in
           (Inl (NewRequestError (errors_Wrap err errMsg) StatusInternalServerError),
            logrus_WithError_Error err errMsg \<sigma>'))
      | (Inr gotCredentials, \<sigma>') \<Rightarrow>
          (let resp = \<lparr>GetCredentialsResponse.Credentials =
                        credential_GetCredentialsResponse.Credentials gotCredentials\<rparr> in
           (Respond (Listed resp) StatusOK, \<sigma>')))"

definition getCredentialsBySubject ::
  "('c, 'r, 'v) environment \<Rightarrow> ('s, 'v) CredentialRouter \<Rightarrow> string \<Rightarrow> 'c \<Rightarrow> 'r \<Rightarrow> ('s, 'v) world
    \<Rightarrow> outcome \<times> ('s, 'v) world" where
  "getCredentialsBySubject env cr subject ctx r \<sigma> =
     (case invoke (Called_GetCredentialsBySubject (GetCredentialBySubjectRequest subject))
             (Service.GetCredentialsBySubject (service cr) (GetCredentialBySubjectRequest subject)) \<sigma> of
        (Inl err, \<sigma>') \<Rightarrow>
          (let errMsg = ''could not get credentials for subject: '' @ util_SanitizeLog env subject in
           (Inl (NewRequestError (errors_Wrap err errMsg) StatusInternalServerError),
            logrus_WithError_Error err errMsg \<sigma>'))
      | (Inr gotCredentials, \<sigma>') \<Rightarrow>
          (let resp = \<lparr>GetCredentialsResponse.Credentials =
                        credential_GetCredentialsResponse.Credentials gotCredentials\<rparr> in
           (Respond (Listed resp) StatusOK, \<sigma>')))"

definition getCredentialsBySchema ::
  "('c, 'r, 'v) environment \<Rightarrow> ('s, 'v) CredentialRouter \<Rightarrow> string \<Rightarrow> 'c \<Rightarrow> 'r \<Rightarrow> ('s, 'v) world
    \<Rightarrow> outcome \<times> ('s, 'v) world" where
  "getCredentialsBySchema env cr schema ctx r \<sigma> =
     (case invoke (Called_GetCredentialsBySchema (GetCredentialBySchemaRequest schema))
             (Service.GetCredentialsBySchema (service cr) (GetCredentialBySchemaRequest schema)) \<sigma> of
        (Inl err, \<sigma>') \<Rightarrow>
          (let errMsg = ''could not get credentials for schema: '' @ util_SanitizeLog env schema in
           (Inl (NewRequestError (errors_Wrap err errMsg) StatusInternalServerError),
            logrus_WithError_Error err errMsg \<sigma>'))
      | (Inr gotCredentials, \<sigma>') \<Rightarrow>
          (let resp = \<lparr>GetCredentialsResponse.Credentials =
                        credential_GetCredentialsResponse.Credentials gotCredentials\<rparr> in
           (Respond (Listed resp) StatusOK, \<sigma>')))"

definition GetCredentials ::
  "('c, 'r, 'v) environment \<Rightarrow> ('s, 'v) CredentialRouter \<Rightarrow> 'c \<Rightarrow> 'r \<Rightarrow> ('s, 'v) world
    \<Rightarrow> outcome \<times> ('s, 'v) world" where
  "GetCredentials env cr ctx r \<sigma> =
     (let issuer = framework_GetQueryValue env r IssuerParam;
          schema = framework_GetQueryValue env r SchemaParam;
          subject = framework_GetQueryValue env r SubjectParam;
          err = NewRequestErrorMsg
                  ''must use one of the following query parameters: issuer, subject, schema''
                  StatusBadRequest
      in if (issuer \<noteq> None \<and> subject \<noteq> None) \<or> (issuer \<noteq> None \<and> schema \<noteq> None)
            \<or> (subject \<noteq> None \<and> schema \<noteq> None)
         then (Inl err, \<sigma>)
         else case issuer of
                Some i \<Rightarrow> getCredentialsByIssuer env cr i ctx r \<sigma>
              | None \<Rightarrow>
                  (case subject of
                     Some s \<Rightarrow> getCredentialsBySubject env cr s ctx r \<sigma>
                   | None \<Rightarrow>
                       (case schema of
                          Some sc \<Rightarrow> getCredentialsBySchema env cr sc ctx r \<sigma>
                        | None \<Rightarrow> (Inl err, \<sigma>))))"

definition DeleteCredential ::
  "('c, 'r, 'v) environment \<Rightarrow> ('s, 'v) CredentialRouter \<Rightarrow> 'c \<Rightarrow> 'r \<Rightarrow> ('s, 'v) world
    \<Rightarrow> outcome \<times> ('s, 'v) world" where
  "DeleteCredential env cr ctx r \<sigma> =
     (case framework_GetParam env ctx IDParam of
        None \<Rightarrow>
          (let errMsg = ''cannot delete credential without ID parameter'' in
           (Inl (NewRequestErrorMsg errMsg StatusBadRequest), logrus_Error errMsg \<sigma>))
      | Some id' \<Rightarrow>
          (case invoke (Called_DeleteCredential (DeleteCredentialRequest id'))
                  (Service.DeleteCredential (service cr) (DeleteCredentialRequest id')) \<sigma> of
             (Some err, \<sigma>') \<Rightarrow>
               (let errMsg = ''could not delete credential with id: '' @ id' in
                (Inl (NewRequestError (errors_Wrap err errMsg) StatusInternalServerError),
                 logrus_WithError_Error err errMsg \<sigma>'))
           | (None, \<sigma>') \<Rightarrow> (Respond Nil_data StatusOK, \<sigma>')))"

subsection \<open>Observations on a call\<close>

text \<open>The status code a caller sees: that of the request error, or that of the response.\<close>

definition status_of :: "outcome \<Rightarrow> int" where
  "status_of out = (case out of Inl e \<Rightarrow> Status e | Inr resp \<Rightarrow> code resp)"

text \<open>The number of the query parameters issuer, subject and schema that are set.\<close>

definition filters_set :: "('c, 'r, 'v) environment \<Rightarrow> 'r \<Rightarrow> nat" where
  "filters_set env r =
     length (filter (\<lambda>p. framework_GetQueryValue env r p \<noteq> None)
               [IssuerParam, SubjectParam, SchemaParam])"

subsection \<open>Sample collaborators\<close>

text \<open>
  Concrete collaborators on which the theorems below are run. A sample context is the
  list of its path parameters; a sample HTTP request is the list of its query
  parameters and the create request its body unmarshals to (a field the body lacks
  has Go's zero value).
\<close>

type_synonym sample_context = "(string \<times> string) list"

type_synonym sample_request = "(string \<times> string) list \<times> string CreateCredentialRequest"

text \<open>
  Modelled from the spec: \<^verbatim>\<open>framework.Decode\<close> is declared outside this file; it is the
  decode step that parses and structurally validates a request body, failing with a
  reportable error. The fields it requires are those tagged \<^verbatim>\<open>validate:"required"\<close> in
  \<^verbatim>\<open>CreateCredentialRequest\<close>: \<^verbatim>\<open>Issuer\<close>, \<^verbatim>\<open>Subject\<close> and \<^verbatim>\<open>Data\<close>.
\<close>

definition sample_Decode :: "sample_request \<Rightarrow> go_error + string CreateCredentialRequest" where
  "sample_Decode r =
     (let request = snd r in
      if CreateCredentialRequest.Issuer request = []
         \<or> CreateCredentialRequest.Subject request = []
         \<or> CreateCredentialRequest.Data request = None
      then Inl (errors_New ''field validation error'')
      else Inr request)"

text \<open>A sanitizer that drops line feeds and carriage returns.\<close>

definition sample_SanitizeLog :: "string \<Rightarrow> string" where
  "sample_SanitizeLog s = filter (\<lambda>c. c \<noteq> CHR 0x0A \<and> c \<noteq> CHR 0x0D) s"

definition sample_env :: "(sample_context, sample_request, string) environment" where
  "sample_env =
     \<lparr>framework_Decode = sample_Decode,
      framework_GetParam = map_of,
      framework_GetQueryValue = (\<lambda>r. map_of (fst r)),
      util_SanitizeLog = sample_SanitizeLog\<rparr>"

text \<open>A service whose every method fails with the given error.\<close>

definition failing_Service :: "go_error \<Rightarrow> (unit, 'v) Service" where
  "failing_Service e =
     \<lparr>Service.CreateCredential = (\<lambda>req s. (Inl e, s)),
      Service.GetCredential = (\<lambda>req s. (Inl e, s)),
      Service.GetCredentialsByIssuer = (\<lambda>req s. (Inl e, s)),
      Service.GetCredentialsBySubject = (\<lambda>req s. (Inl e, s)),
      Service.GetCredentialsBySchema = (\<lambda>req s. (Inl e, s)),
      Service.DeleteCredential = (\<lambda>req s. (Some e, s))\<rparr>"

text \<open>A service whose every method succeeds, returning the given credential.\<close>

definition succeeding_Service :: "VerifiableCredential \<Rightarrow> (unit, 'v) Service" where
  "succeeding_Service c =
     \<lparr>Service.CreateCredential =
        (\<lambda>req s. (Inr \<lparr>credential_CreateCredentialResponse.Credential = c\<rparr>, s)),
      Service.GetCredential =
        (\<lambda>req s. (Inr \<lparr>credential_GetCredentialResponse.Credential = c\<rparr>, s)),
      Service.GetCredentialsByIssuer =
        (\<lambda>req s. (Inr \<lparr>credential_GetCredentialsResponse.Credentials = [c]\<rparr>, s)),
      Service.GetCredentialsBySubject =
        (\<lambda>req s. (Inr \<lparr>credential_GetCredentialsResponse.Credentials = [c]\<rparr>, s)),
      Service.GetCredentialsBySchema =
        (\<lambda>req s. (Inr \<lparr>credential_GetCredentialsResponse.Credentials = [c]\<rparr>, s)),
      Service.DeleteCredential = (\<lambda>req s. (None, s))\<rparr>"

text \<open>
  A service whose every method fails with an error that quotes the value it was asked
  for.
\<close>

definition echoing_Service :: "(unit, 'v) Service" where
  "echoing_Service =
     \<lparr>Service.CreateCredential =
        (\<lambda>req s. (Inl (errors_New (''cannot issue for ''
                      @ credential_CreateCredentialRequest.Issuer req)), s)),
      Service.GetCredential =
        (\<lambda>req s. case req of GetCredentialRequest v \<Rightarrow>
           (Inl (errors_New (''no credential with id '' @ v)), s)),
      Service.GetCredentialsByIssuer =
        (\<lambda>req s. case req of GetCredentialByIssuerRequest v \<Rightarrow>
           (Inl (errors_New (''no credentials for issuer '' @ v)), s)),
      Service.GetCredentialsBySubject =
        (\<lambda>req s. case req of GetCredentialBySubjectRequest v \<Rightarrow>
           (Inl (errors_New (''no credentials for subject '' @ v)), s)),
      Service.GetCredentialsBySchema =
        (\<lambda>req s. case req of GetCredentialBySchemaRequest v \<Rightarrow>
           (Inl (errors_New (''no credentials for schema '' @ v)), s)),
      Service.DeleteCredential =
        (\<lambda>req s. case req of DeleteCredentialRequest v \<Rightarrow>
           (Some (errors_New (''no credential with id '' @ v)), s))\<rparr>"

definition sample_credential :: VerifiableCredential where
  "sample_credential = \<lparr>VerifiableCredential.ID = ''cred-1'', Rest = ''did:a did:b name=x''\<rparr>"

definition sample_create :: "string CreateCredentialRequest" where
  "sample_create =
     \<lparr>CreateCredentialRequest.Issuer = ''did:a'',
      CreateCredentialRequest.Subject = ''did:b'',
      CreateCredentialRequest.Context = [],
      CreateCredentialRequest.Schema = [],
      CreateCredentialRequest.Data = Some [''name'' \<mapsto> ''x''],
      CreateCredentialRequest.Expiry = []\<rparr>"

definition fresh_world :: "(unit, string) world" where
  "fresh_world = \<lparr>store = (), calls = [], logged = []\<rparr>"

section \<open>Properties of the handlers\<close>

subsection \<open>What each path of a handler returns\<close>

lemmas status_defs = StatusOK_def StatusCreated_def StatusBadRequest_def StatusInternalServerError_def
lemmas param_defs = IssuerParam_def SubjectParam_def SchemaParam_def IDParam_def
lemmas sample_defs = sample_env_def sample_Decode_def sample_SanitizeLog_def failing_Service_def
  succeeding_Service_def echoing_Service_def sample_credential_def sample_create_def
  fresh_world_def
lemmas effect_defs = invoke_def logrus_Error_def logrus_WithError_Error_def Respond_def
  NewRequestError_def NewRequestErrorMsg_def

lemma Error_NewRequestErrorMsg:
  "Error (Err (NewRequestErrorMsg msg status)) = msg"
  by (simp add: NewRequestErrorMsg_def)

lemma Error_NewRequestError_Wrap:
  "Error (Err (NewRequestError (errors_Wrap err msg) status)) = msg @ '': '' @ Error err"
  by (simp add: NewRequestError_def)

lemma sample_Decode_required:
  assumes "CreateCredentialRequest.Issuer (snd r) = []
           \<or> CreateCredentialRequest.Subject (snd r) = []
           \<or> CreateCredentialRequest.Data (snd r) = None"
  shows "sample_Decode r = Inl (errors_New ''field validation error'')"
  using assms by (auto simp: sample_Decode_def Let_def)

lemma CreateCredential_invalid:
  assumes "framework_Decode env r = Inl err"
  shows "CreateCredential env cr ctx r \<sigma> =
           (Inl \<lparr>Err = errors_Wrap err ''invalid create credential request'', Status = 400\<rparr>,
            \<sigma>\<lparr>logged := logged \<sigma> @ [ErrorEntry (Some err) ''invalid create credential request'']\<rparr>)"
  using assms by (simp add: CreateCredential_def effect_defs status_defs Let_def)

lemma CreateCredential_created:
  assumes "framework_Decode env r = Inr request"
    and "Service.CreateCredential (service cr) (ToServiceRequest request) (store \<sigma>) = (Inr created, s')"
  shows "CreateCredential env cr ctx r \<sigma> =
           (Inr \<lparr>payload = Created \<lparr>CreateCredentialResponse.Credential =
                                      credential_CreateCredentialResponse.Credential created\<rparr>,
                 code = 201\<rparr>,
            \<sigma>\<lparr>store := s', calls := calls \<sigma> @ [Called_CreateCredential (ToServiceRequest request)]\<rparr>)"
  using assms by (simp add: CreateCredential_def effect_defs status_defs Let_def)

lemma GetCredential_absent:
  assumes "framework_GetParam env ctx IDParam = None"
  shows "GetCredential env cr ctx r \<sigma> =
           (Inl \<lparr>Err = errors_New ''cannot get credential without ID parameter'', Status = 400\<rparr>,
            \<sigma>\<lparr>logged := logged \<sigma> @ [ErrorEntry None ''cannot get credential without ID parameter'']\<rparr>)"
  using assms by (simp add: GetCredential_def effect_defs status_defs Let_def)

lemma GetCredential_failed:
  assumes "framework_GetParam env ctx IDParam = Some i"
    and "Service.GetCredential (service cr) (GetCredentialRequest i) (store \<sigma>) = (Inl e, s')"
  shows "GetCredential env cr ctx r \<sigma> =
           (Inl \<lparr>Err = errors_Wrap e (''could not get credential with id: '' @ i), Status = 400\<rparr>,
            \<sigma>\<lparr>store := s', calls := calls \<sigma> @ [Called_GetCredential (GetCredentialRequest i)],
               logged := logged \<sigma> @ [ErrorEntry (Some e) (''could not get credential with id: '' @ i)]\<rparr>)"
  using assms by (simp add: GetCredential_def effect_defs status_defs Let_def)

lemma GetCredential_found:
  assumes "framework_GetParam env ctx IDParam = Some i"
    and "Service.GetCredential (service cr) (GetCredentialRequest i) (store \<sigma>) = (Inr got, s')"
  shows "GetCredential env cr ctx r \<sigma> =
           (Inr \<lparr>payload = Got
                    \<lparr>GetCredentialResponse.ID =
                       VerifiableCredential.ID (credential_GetCredentialResponse.Credential got),
                     GetCredentialResponse.Credential = credential_GetCredentialResponse.Credential got\<rparr>,
                 code = 200\<rparr>,
            \<sigma>\<lparr>store := s', calls := calls \<sigma> @ [Called_GetCredential (GetCredentialRequest i)]\<rparr>)"
  using assms by (simp add: GetCredential_def effect_defs status_defs Let_def)

lemma DeleteCredential_absent:
  assumes "framework_GetParam env ctx IDParam = None"
  shows "DeleteCredential env cr ctx r \<sigma> =
           (Inl \<lparr>Err = errors_New ''cannot delete credential without ID parameter'', Status = 400\<rparr>,
            \<sigma>\<lparr>logged := logged \<sigma> @ [ErrorEntry None ''cannot delete credential without ID parameter'']\<rparr>)"
  using assms by (simp add: DeleteCredential_def effect_defs status_defs Let_def)

lemma DeleteCredential_failed:
  assumes "framework_GetParam env ctx IDParam = Some i"
    and "Service.DeleteCredential (service cr) (DeleteCredentialRequest i) (store \<sigma>) = (Some e, s')"
  shows "DeleteCredential env cr ctx r \<sigma> =
           (Inl \<lparr>Err = errors_Wrap e (''could not delete credential with id: '' @ i), Status = 500\<rparr>,
            \<sigma>\<lparr>store := s', calls := calls \<sigma> @ [Called_DeleteCredential (DeleteCredentialRequest i)],
               logged := logged \<sigma> @ [ErrorEntry (Some e) (''could not delete credential with id: '' @ i)]\<rparr>)"
  using assms by (simp add: DeleteCredential_def effect_defs status_defs Let_def)

lemma getCredentialsByIssuer_failed:
  assumes "Service.GetCredentialsByIssuer (service cr) (GetCredentialByIssuerRequest v) (store \<sigma>) = (Inl e, s')"
  shows "getCredentialsByIssuer env cr v ctx r \<sigma> =
           (Inl \<lparr>Err = errors_Wrap e (''could not get credentials for issuer: '' @ util_SanitizeLog env v),
                 Status = 500\<rparr>,
            \<sigma>\<lparr>store := s', calls := calls \<sigma> @ [Called_GetCredentialsByIssuer (GetCredentialByIssuerRequest v)],
               logged := logged \<sigma> @
                 [ErrorEntry (Some e) (''could not get credentials for issuer: '' @ util_SanitizeLog env v)]\<rparr>)"
  using assms by (simp add: getCredentialsByIssuer_def effect_defs status_defs Let_def)

lemma getCredentialsBySubject_failed:
  assumes "Service.GetCredentialsBySubject (service cr) (GetCredentialBySubjectRequest v) (store \<sigma>) = (Inl e, s')"
  shows "getCredentialsBySubject env cr v ctx r \<sigma> =
           (Inl \<lparr>Err = errors_Wrap e (''could not get credentials for subject: '' @ util_SanitizeLog env v),
                 Status = 500\<rparr>,
            \<sigma>\<lparr>store := s', calls := calls \<sigma> @ [Called_GetCredentialsBySubject (GetCredentialBySubjectRequest v)],
               logged := logged \<sigma> @
                 [ErrorEntry (Some e) (''could not get credentials for subject: '' @ util_SanitizeLog env v)]\<rparr>)"
  using assms by (simp add: getCredentialsBySubject_def effect_defs status_defs Let_def)

lemma getCredentialsBySchema_failed:
  assumes "Service.GetCredentialsBySchema (service cr) (GetCredentialBySchemaRequest v) (store \<sigma>) = (Inl e, s')"
  shows "getCredentialsBySchema env cr v ctx r \<sigma> =
           (Inl \<lparr>Err = errors_Wrap e (''could not get credentials for schema: '' @ util_SanitizeLog env v),
                 Status = 500\<rparr>,
            \<sigma>\<lparr>store := s', calls := calls \<sigma> @ [Called_GetCredentialsBySchema (GetCredentialBySchemaRequest v)],
               logged := logged \<sigma> @
                 [ErrorEntry (Some e) (''could not get credentials for schema: '' @ util_SanitizeLog env v)]\<rparr>)"
  using assms by (simp add: getCredentialsBySchema_def effect_defs status_defs Let_def)

lemma getCredentialsByIssuer_calls:
  "calls (snd (getCredentialsByIssuer env cr v ctx r \<sigma>)) =
     calls \<sigma> @ [Called_GetCredentialsByIssuer (GetCredentialByIssuerRequest v)]"
  by (simp add: getCredentialsByIssuer_def effect_defs Let_def split: prod.splits sum.splits)

lemma getCredentialsBySubject_calls:
  "calls (snd (getCredentialsBySubject env cr v ctx r \<sigma>)) =
     calls \<sigma> @ [Called_GetCredentialsBySubject (GetCredentialBySubjectRequest v)]"
  by (simp add: getCredentialsBySubject_def effect_defs Let_def split: prod.splits sum.splits)

lemma getCredentialsBySchema_calls:
  "calls (snd (getCredentialsBySchema env cr v ctx r \<sigma>)) =
     calls \<sigma> @ [Called_GetCredentialsBySchema (GetCredentialBySchemaRequest v)]"
  by (simp add: getCredentialsBySchema_def effect_defs Let_def split: prod.splits sum.splits)

lemma getCredentialsByIssuer_store:
  "store (snd (getCredentialsByIssuer env cr v ctx r \<sigma>)) =
     snd (Service.GetCredentialsByIssuer (service cr) (GetCredentialByIssuerRequest v) (store \<sigma>))"
  by (simp add: getCredentialsByIssuer_def effect_defs Let_def split: prod.splits sum.splits)

lemma getCredentialsBySubject_store:
  "store (snd (getCredentialsBySubject env cr v ctx r \<sigma>)) =
     snd (Service.GetCredentialsBySubject (service cr) (GetCredentialBySubjectRequest v) (store \<sigma>))"
  by (simp add: getCredentialsBySubject_def effect_defs Let_def split: prod.splits sum.splits)

lemma getCredentialsBySchema_store:
  "store (snd (getCredentialsBySchema env cr v ctx r \<sigma>)) =
     snd (Service.GetCredentialsBySchema (service cr) (GetCredentialBySchemaRequest v) (store \<sigma>))"
  by (simp add: getCredentialsBySchema_def effect_defs Let_def split: prod.splits sum.splits)

lemma getCredentialsByIssuer_outcome:
  "fst (getCredentialsByIssuer env cr v ctx r \<sigma>) =
     (case fst (Service.GetCredentialsByIssuer (service cr) (GetCredentialByIssuerRequest v) (store \<sigma>)) of
        Inl e \<Rightarrow>
          Inl \<lparr>Err = errors_Wrap e (''could not get credentials for issuer: '' @ util_SanitizeLog env v),
               Status = 500\<rparr>
      | Inr got \<Rightarrow>
          Inr \<lparr>payload = Listed \<lparr>GetCredentialsResponse.Credentials =
                                    credential_GetCredentialsResponse.Credentials got\<rparr>,
               code = 200\<rparr>)"
  by (simp add: getCredentialsByIssuer_def effect_defs status_defs Let_def
           split: prod.splits sum.splits)

lemma getCredentialsBySubject_outcome:
  "fst (getCredentialsBySubject env cr v ctx r \<sigma>) =
     (case fst (Service.GetCredentialsBySubject (service cr) (GetCredentialBySubjectRequest v) (store \<sigma>)) of
        Inl e \<Rightarrow>
          Inl \<lparr>Err = errors_Wrap e (''could not get credentials for subject: '' @ util_SanitizeLog env v),
               Status = 500\<rparr>
      | Inr got \<Rightarrow>
          Inr \<lparr>payload = Listed \<lparr>GetCredentialsResponse.Credentials =
                                    credential_GetCredentialsResponse.Credentials got\<rparr>,
               code = 200\<rparr>)"
  by (simp add: getCredentialsBySubject_def effect_defs status_defs Let_def
           split: prod.splits sum.splits)

lemma getCredentialsBySchema_outcome:
  "fst (getCredentialsBySchema env cr v ctx r \<sigma>) =
     (case fst (Service.GetCredentialsBySchema (service cr) (GetCredentialBySchemaRequest v) (store \<sigma>)) of
        Inl e \<Rightarrow>
          Inl \<lparr>Err = errors_Wrap e (''could not get credentials for schema: '' @ util_SanitizeLog env v),
               Status = 500\<rparr>
      | Inr got \<Rightarrow>
          Inr \<lparr>payload = Listed \<lparr>GetCredentialsResponse.Credentials =
                                    credential_GetCredentialsResponse.Credentials got\<rparr>,
               code = 200\<rparr>)"
  by (simp add: getCredentialsBySchema_def effect_defs status_defs Let_def
           split: prod.splits sum.splits)

lemma GetCredentials_issuer:
  assumes "framework_GetQueryValue env r IssuerParam = Some v"
    and "framework_GetQueryValue env r SubjectParam = None"
    and "framework_GetQueryValue env r SchemaParam = None"
  shows "GetCredentials env cr ctx r \<sigma> = getCredentialsByIssuer env cr v ctx r \<sigma>"
  using assms by (simp add: GetCredentials_def Let_def)

lemma GetCredentials_subject:
  assumes "framework_GetQueryValue env r IssuerParam = None"
    and "framework_GetQueryValue env r SubjectParam = Some v"
    and "framework_GetQueryValue env r SchemaParam = None"
  shows "GetCredentials env cr ctx r \<sigma> = getCredentialsBySubject env cr v ctx r \<sigma>"
  using assms by (simp add: GetCredentials_def Let_def)

lemma GetCredentials_schema:
  assumes "framework_GetQueryValue env r IssuerParam = None"
    and "framework_GetQueryValue env r SubjectParam = None"
    and "framework_GetQueryValue env r SchemaParam = Some v"
  shows "GetCredentials env cr ctx r \<sigma> = getCredentialsBySchema env cr v ctx r \<sigma>"
  using assms by (simp add: GetCredentials_def Let_def)

lemma filters_set_one:
  "filters_set env r = 1 \<longleftrightarrow>
     (framework_GetQueryValue env r IssuerParam \<noteq> None
        \<and> framework_GetQueryValue env r SubjectParam = None
        \<and> framework_GetQueryValue env r SchemaParam = None)
   \<or> (framework_GetQueryValue env r IssuerParam = None
        \<and> framework_GetQueryValue env r SubjectParam \<noteq> None
        \<and> framework_GetQueryValue env r SchemaParam = None)
   \<or> (framework_GetQueryValue env r IssuerParam = None
        \<and> framework_GetQueryValue env r SubjectParam = None
        \<and> framework_GetQueryValue env r SchemaParam \<noteq> None)"
  by (simp add: filters_set_def)


subsection \<open>Query dispatch\<close>

text \<open>
  Claim C1. When none of the query parameters issuer, subject and schema is set, or two
  or more of them are, \<^verbatim>\<open>GetCredentials\<close> returns a request error of status 400 with the
  message "must use one of the following query parameters: issuer, subject, schema",
  and the world is left as it was: no method of the Credential Service is invoked.
\<close>

theorem GetCredentials_rejects_zero_or_many:
  assumes "filters_set env r \<noteq> 1"
  shows "fst (GetCredentials env cr ctx r \<sigma>) =
           Inl \<lparr>Err = errors_New ''must use one of the following query parameters: issuer, subject, schema'',
                Status = 400\<rparr>
         \<and> snd (GetCredentials env cr ctx r \<sigma>) = \<sigma>"
  using assms
  by (auto simp: GetCredentials_def filters_set_def NewRequestErrorMsg_def status_defs Let_def
           split: option.splits if_splits)

theorem GetCredentials_rejects_zero_or_many_witness:
  "filters_set sample_env ([], sample_create) \<noteq> 1
   \<and> filters_set sample_env ([(''issuer'', ''did:a''), (''subject'', ''did:b'')], sample_create) \<noteq> 1
   \<and> GetCredentials sample_env \<lparr>service = succeeding_Service sample_credential\<rparr> []
         ([], sample_create) fresh_world
       = (Inl \<lparr>Err = errors_New ''must use one of the following query parameters: issuer, subject, schema'',
                Status = 400\<rparr>, fresh_world)
   \<and> GetCredentials sample_env \<lparr>service = succeeding_Service sample_credential\<rparr> []
         ([(''issuer'', ''did:a''), (''subject'', ''did:b'')], sample_create) fresh_world
       = (Inl \<lparr>Err = errors_New ''must use one of the following query parameters: issuer, subject, schema'',
                Status = 400\<rparr>, fresh_world)"
proof -
  have none: "filters_set sample_env ([], sample_create) \<noteq> 1"
    by (simp add: filters_set_def sample_env_def param_defs)
  have two: "filters_set sample_env ([(''issuer'', ''did:a''), (''subject'', ''did:b'')], sample_create) \<noteq> 1"
    by (simp add: filters_set_def sample_env_def param_defs)
  show ?thesis
    using none two
      GetCredentials_rejects_zero_or_many [OF none,
        of "\<lparr>service = succeeding_Service sample_credential\<rparr>" "[]" fresh_world]
      GetCredentials_rejects_zero_or_many [OF two,
        of "\<lparr>service = succeeding_Service sample_credential\<rparr>" "[]" fresh_world]
    by (simp add: prod_eq_iff)
qed

text \<open>
  Claim C2. When exactly one of issuer, subject and schema is set, \<^verbatim>\<open>GetCredentials\<close>
  invokes the matching method of the Credential Service with the value of that
  parameter, once, and invokes no other method: the invocations after the call are
  those before it followed by that single one, the state of the service is the state
  that method leaves when run on the state before the call, and the outcome of the
  handler is made from what that method returns.
\<close>

theorem GetCredentials_dispatches_once:
  assumes "filters_set env r = 1"
  shows "(\<forall>v. framework_GetQueryValue env r IssuerParam = Some v \<longrightarrow>
            calls (snd (GetCredentials env cr ctx r \<sigma>)) =
              calls \<sigma> @ [Called_GetCredentialsByIssuer (GetCredentialByIssuerRequest v)]
          \<and> store (snd (GetCredentials env cr ctx r \<sigma>)) =
              snd (Service.GetCredentialsByIssuer (service cr) (GetCredentialByIssuerRequest v) (store \<sigma>))
          \<and> fst (GetCredentials env cr ctx r \<sigma>) =
              (case fst (Service.GetCredentialsByIssuer (service cr)
                           (GetCredentialByIssuerRequest v) (store \<sigma>)) of
                 Inl e \<Rightarrow>
                   Inl \<lparr>Err = errors_Wrap e
                                (''could not get credentials for issuer: '' @ util_SanitizeLog env v),
                        Status = 500\<rparr>
               | Inr got \<Rightarrow>
                   Inr \<lparr>payload = Listed \<lparr>GetCredentialsResponse.Credentials =
                                             credential_GetCredentialsResponse.Credentials got\<rparr>,
                        code = 200\<rparr>))
       \<and> (\<forall>v. framework_GetQueryValue env r SubjectParam = Some v \<longrightarrow>
            calls (snd (GetCredentials env cr ctx r \<sigma>)) =
              calls \<sigma> @ [Called_GetCredentialsBySubject (GetCredentialBySubjectRequest v)]
          \<and> store (snd (GetCredentials env cr ctx r \<sigma>)) =
              snd (Service.GetCredentialsBySubject (service cr) (GetCredentialBySubjectRequest v) (store \<sigma>))
          \<and> fst (GetCredentials env cr ctx r \<sigma>) =
              (case fst (Service.GetCredentialsBySubject (service cr)
                           (GetCredentialBySubjectRequest v) (store \<sigma>)) of
                 Inl e \<Rightarrow>
                   Inl \<lparr>Err = errors_Wrap e
                                (''could not get credentials for subject: '' @ util_SanitizeLog env v),
                        Status = 500\<rparr>
               | Inr got \<Rightarrow>
                   Inr \<lparr>payload = Listed \<lparr>GetCredentialsResponse.Credentials =
                                             credential_GetCredentialsResponse.Credentials got\<rparr>,
                        code = 200\<rparr>))
       \<and> (\<forall>v. framework_GetQueryValue env r SchemaParam = Some v \<longrightarrow>
            calls (snd (GetCredentials env cr ctx r \<sigma>)) =
              calls \<sigma> @ [Called_GetCredentialsBySchema (GetCredentialBySchemaRequest v)]
          \<and> store (snd (GetCredentials env cr ctx r \<sigma>)) =
              snd (Service.GetCredentialsBySchema (service cr) (GetCredentialBySchemaRequest v) (store \<sigma>))
          \<and> fst (GetCredentials env cr ctx r \<sigma>) =
              (case fst (Service.GetCredentialsBySchema (service cr)
                           (GetCredentialBySchemaRequest v) (store \<sigma>)) of
                 Inl e \<Rightarrow>
                   Inl \<lparr>Err = errors_Wrap e
                                (''could not get credentials for schema: '' @ util_SanitizeLog env v),
                        Status = 500\<rparr>
               | Inr got \<Rightarrow>
                   Inr \<lparr>payload = Listed \<lparr>GetCredentialsResponse.Credentials =
                                             credential_GetCredentialsResponse.Credentials got\<rparr>,
                        code = 200\<rparr>))"
proof -
  from assms consider
      (issuer) v where "framework_GetQueryValue env r IssuerParam = Some v"
        "framework_GetQueryValue env r SubjectParam = None"
        "framework_GetQueryValue env r SchemaParam = None"
    | (subject) v where "framework_GetQueryValue env r IssuerParam = None"
        "framework_GetQueryValue env r SubjectParam = Some v"
        "framework_GetQueryValue env r SchemaParam = None"
    | (schema) v where "framework_GetQueryValue env r IssuerParam = None"
        "framework_GetQueryValue env r SubjectParam = None"
        "framework_GetQueryValue env r SchemaParam = Some v"
    unfolding filters_set_one by auto
  then show ?thesis
  proof cases
    case issuer
    then show ?thesis
      by (simp add: GetCredentials_issuer [OF issuer] getCredentialsByIssuer_calls
            getCredentialsByIssuer_store getCredentialsByIssuer_outcome)
  next
    case subject
    then show ?thesis
      by (simp add: GetCredentials_subject [OF subject] getCredentialsBySubject_calls
            getCredentialsBySubject_store getCredentialsBySubject_outcome)
  next
    case schema
    then show ?thesis
      by (simp add: GetCredentials_schema [OF schema] getCredentialsBySchema_calls
            getCredentialsBySchema_store getCredentialsBySchema_outcome)
  qed
qed

theorem GetCredentials_dispatches_once_witness:
  "filters_set sample_env ([(''issuer'', ''did:a'')], sample_create) = 1
   \<and> GetCredentials sample_env \<lparr>service = succeeding_Service sample_credential\<rparr> []
        ([(''issuer'', ''did:a'')], sample_create) fresh_world
       = (Inr \<lparr>payload = Listed \<lparr>GetCredentialsResponse.Credentials = [sample_credential]\<rparr>,
                code = 200\<rparr>,
          \<lparr>store = (),
           calls = [Called_GetCredentialsByIssuer (GetCredentialByIssuerRequest ''did:a'')],
           logged = []\<rparr>)
   \<and> filters_set sample_env ([(''subject'', ''did:b'')], sample_create) = 1
   \<and> GetCredentials sample_env \<lparr>service = succeeding_Service sample_credential\<rparr> []
        ([(''subject'', ''did:b'')], sample_create) fresh_world
       = (Inr \<lparr>payload = Listed \<lparr>GetCredentialsResponse.Credentials = [sample_credential]\<rparr>,
                code = 200\<rparr>,
          \<lparr>store = (),
           calls = [Called_GetCredentialsBySubject (GetCredentialBySubjectRequest ''did:b'')],
           logged = []\<rparr>)
   \<and> filters_set sample_env ([(''schema'', ''schema-1'')], sample_create) = 1
   \<and> fst (GetCredentials sample_env \<lparr>service = echoing_Service\<rparr> []
        ([(''schema'', ''schema-1'')], sample_create) fresh_world)
       = Inl \<lparr>Err = errors_Wrap (errors_New ''no credentials for schema schema-1'')
                       ''could not get credentials for schema: schema-1'',
              Status = 500\<rparr>
   \<and> calls (snd (GetCredentials sample_env \<lparr>service = echoing_Service\<rparr> []
        ([(''schema'', ''schema-1'')], sample_create) fresh_world))
       = [Called_GetCredentialsBySchema (GetCredentialBySchemaRequest ''schema-1'')]"
proof -
  have i: "filters_set sample_env ([(''issuer'', ''did:a'')], sample_create) = 1"
    by (simp add: filters_set_def sample_env_def param_defs)
  have s: "filters_set sample_env ([(''subject'', ''did:b'')], sample_create) = 1"
    by (simp add: filters_set_def sample_env_def param_defs)
  have c: "filters_set sample_env ([(''schema'', ''schema-1'')], sample_create) = 1"
    by (simp add: filters_set_def sample_env_def param_defs)
  have logs:
    "logged (snd (GetCredentials sample_env \<lparr>service = succeeding_Service sample_credential\<rparr> []
        ([(''issuer'', ''did:a'')], sample_create) fresh_world)) = []"
    "logged (snd (GetCredentials sample_env \<lparr>service = succeeding_Service sample_credential\<rparr> []
        ([(''subject'', ''did:b'')], sample_create) fresh_world)) = []"
    by (simp_all add: GetCredentials_def getCredentialsByIssuer_def getCredentialsBySubject_def
          effect_defs sample_defs param_defs Let_def)
  show ?thesis
    using i s c logs
      GetCredentials_dispatches_once [OF i,
        of "\<lparr>service = succeeding_Service sample_credential\<rparr>" "[]" fresh_world]
      GetCredentials_dispatches_once [OF s,
        of "\<lparr>service = succeeding_Service sample_credential\<rparr>" "[]" fresh_world]
      GetCredentials_dispatches_once [OF c, of "\<lparr>service = echoing_Service\<rparr>" "[]" fresh_world]
    by (simp add: sample_env_def sample_SanitizeLog_def succeeding_Service_def echoing_Service_def
          param_defs fresh_world_def prod_eq_iff world.equality)
qed

subsection \<open>Creating a credential\<close>

text \<open>
  Claim C3. When the decode step fails on a create request, \<^verbatim>\<open>CreateCredential\<close> returns a
  request error of status 400 that wraps the decode error, and the Credential Service
  is not invoked: its invocations and its state are those before the call. The witness
  runs the handler on the three sample requests that lack the issuer, the subject and
  the data, which the validating sample decoder refuses.
\<close>

theorem CreateCredential_decode_failure:
  assumes "framework_Decode env r = Inl err"
  shows "fst (CreateCredential env cr ctx r \<sigma>) =
           Inl \<lparr>Err = errors_Wrap err ''invalid create credential request'', Status = 400\<rparr>
         \<and> calls (snd (CreateCredential env cr ctx r \<sigma>)) = calls \<sigma>
         \<and> store (snd (CreateCredential env cr ctx r \<sigma>)) = store \<sigma>"
  by (simp add: CreateCredential_invalid [OF assms])

theorem CreateCredential_decode_failure_witness:
  "framework_Decode sample_env ([], sample_create\<lparr>CreateCredentialRequest.Issuer := []\<rparr>)
     = Inl (errors_New ''field validation error'')
   \<and> framework_Decode sample_env ([], sample_create\<lparr>CreateCredentialRequest.Subject := []\<rparr>)
     = Inl (errors_New ''field validation error'')
   \<and> framework_Decode sample_env ([], sample_create\<lparr>CreateCredentialRequest.Data := None\<rparr>)
     = Inl (errors_New ''field validation error'')
   \<and> fst (CreateCredential sample_env \<lparr>service = succeeding_Service sample_credential\<rparr> []
            ([], sample_create\<lparr>CreateCredentialRequest.Issuer := []\<rparr>) fresh_world)
       = Inl \<lparr>Err = errors_Wrap (errors_New ''field validation error'')
                       ''invalid create credential request'',
              Status = 400\<rparr>
   \<and> calls (snd (CreateCredential sample_env \<lparr>service = succeeding_Service sample_credential\<rparr> []
            ([], sample_create\<lparr>CreateCredentialRequest.Issuer := []\<rparr>) fresh_world)) = []
   \<and> fst (CreateCredential sample_env \<lparr>service = succeeding_Service sample_credential\<rparr> []
            ([], sample_create\<lparr>CreateCredentialRequest.Subject := []\<rparr>) fresh_world)
       = Inl \<lparr>Err = errors_Wrap (errors_New ''field validation error'')
                       ''invalid create credential request'',
              Status = 400\<rparr>
   \<and> calls (snd (CreateCredential sample_env \<lparr>service = succeeding_Service sample_credential\<rparr> []
            ([], sample_create\<lparr>CreateCredentialRequest.Subject := []\<rparr>) fresh_world)) = []
   \<and> fst (CreateCredential sample_env \<lparr>service = succeeding_Service sample_credential\<rparr> []
            ([], sample_create\<lparr>CreateCredentialRequest.Data := None\<rparr>) fresh_world)
       = Inl \<lparr>Err = errors_Wrap (errors_New ''field validation error'')
                       ''invalid create credential request'',
              Status = 400\<rparr>
   \<and> calls (snd (CreateCredential sample_env \<lparr>service = succeeding_Service sample_credential\<rparr> []
            ([], sample_create\<lparr>CreateCredentialRequest.Data := None\<rparr>) fresh_world)) = []"
proof -
  have i: "framework_Decode sample_env ([], sample_create\<lparr>CreateCredentialRequest.Issuer := []\<rparr>)
             = Inl (errors_New ''field validation error'')"
    by (simp add: sample_env_def sample_Decode_def sample_create_def)
  have s: "framework_Decode sample_env ([], sample_create\<lparr>CreateCredentialRequest.Subject := []\<rparr>)
             = Inl (errors_New ''field validation error'')"
    by (simp add: sample_env_def sample_Decode_def sample_create_def)
  have d: "framework_Decode sample_env ([], sample_create\<lparr>CreateCredentialRequest.Data := None\<rparr>)
             = Inl (errors_New ''field validation error'')"
    by (simp add: sample_env_def sample_Decode_def sample_create_def)
  show ?thesis
    using i s d
      CreateCredential_decode_failure [OF i,
        of "\<lparr>service = succeeding_Service sample_credential\<rparr>" "[]" fresh_world]
      CreateCredential_decode_failure [OF s,
        of "\<lparr>service = succeeding_Service sample_credential\<rparr>" "[]" fresh_world]
      CreateCredential_decode_failure [OF d,
        of "\<lparr>service = succeeding_Service sample_credential\<rparr>" "[]" fresh_world]
    by (simp add: fresh_world_def)
qed

text \<open>
  Claim C6. When the create request decodes and the Credential Service creates a
  credential, \<^verbatim>\<open>CreateCredential\<close> responds with status 201 and an envelope whose
  credential is the one the service returned.
\<close>

theorem CreateCredential_echoes_credential:
  assumes "framework_Decode env r = Inr request"
    and "Service.CreateCredential (service cr) (ToServiceRequest request) (store \<sigma>) = (Inr created, s')"
  shows "fst (CreateCredential env cr ctx r \<sigma>) =
           Inr \<lparr>payload = Created \<lparr>CreateCredentialResponse.Credential =
                                     credential_CreateCredentialResponse.Credential created\<rparr>,
                code = 201\<rparr>"
  by (simp add: CreateCredential_created [OF assms])

theorem CreateCredential_echoes_credential_witness:
  "framework_Decode sample_env ([], sample_create) = Inr sample_create
   \<and> Service.CreateCredential (succeeding_Service sample_credential) (ToServiceRequest sample_create) ()
       = (Inr \<lparr>credential_CreateCredentialResponse.Credential = sample_credential\<rparr>, ())
   \<and> fst (CreateCredential sample_env \<lparr>service = succeeding_Service sample_credential\<rparr> []
            ([], sample_create) fresh_world)
       = Inr \<lparr>payload = Created \<lparr>CreateCredentialResponse.Credential = sample_credential\<rparr>,
              code = 201\<rparr>"
proof -
  have d: "framework_Decode sample_env ([], sample_create) = Inr sample_create"
    by (simp add: sample_env_def sample_Decode_def sample_create_def)
  have c: "Service.CreateCredential (service \<lparr>service = succeeding_Service sample_credential\<rparr>)
             (ToServiceRequest sample_create) (store fresh_world)
           = (Inr \<lparr>credential_CreateCredentialResponse.Credential = sample_credential\<rparr>, ())"
    by (simp add: succeeding_Service_def)
  show ?thesis
    using d c CreateCredential_echoes_credential [OF d c, of "[]"]
    by simp
qed

text \<open>
  Claim C7. \<^verbatim>\<open>ToServiceRequest\<close> copies every field of the wire request to the service
  request, \<^verbatim>\<open>Schema\<close> under the name \<^verbatim>\<open>JSONSchema\<close>, and changes none of them: it is
  defined on every wire request, and two wire requests with the same service request
  are the same request.
\<close>

theorem ToServiceRequest_lossless:
  "credential_CreateCredentialRequest.Issuer (ToServiceRequest c) = CreateCredentialRequest.Issuer c
   \<and> credential_CreateCredentialRequest.Subject (ToServiceRequest c) = CreateCredentialRequest.Subject c
   \<and> credential_CreateCredentialRequest.Context (ToServiceRequest c) = CreateCredentialRequest.Context c
   \<and> credential_CreateCredentialRequest.JSONSchema (ToServiceRequest c) = CreateCredentialRequest.Schema c
   \<and> credential_CreateCredentialRequest.Data (ToServiceRequest c) = CreateCredentialRequest.Data c
   \<and> credential_CreateCredentialRequest.Expiry (ToServiceRequest c) = CreateCredentialRequest.Expiry c
   \<and> ((ToServiceRequest c = ToServiceRequest c') = (c = c'))"
  by (cases c, cases c') (auto simp: ToServiceRequest_def)

subsection \<open>Looking a credential up and deleting it\<close>

text \<open>
  Claim C4, as the code has it. When the id parameter is absent (\<^verbatim>\<open>GetParam\<close> returns
  \<^verbatim>\<open>nil\<close>), \<^verbatim>\<open>GetCredential\<close> returns a request error of status 400 with the message
  "cannot get credential without ID parameter" and \<^verbatim>\<open>DeleteCredential\<close> one of status
  400 with the message "cannot delete credential without ID parameter"; neither invokes
  the Credential Service.
\<close>

theorem absent_id_is_bad_request:
  assumes "framework_GetParam env ctx IDParam = None"
  shows "fst (GetCredential env cr ctx r \<sigma>) =
           Inl \<lparr>Err = errors_New ''cannot get credential without ID parameter'', Status = 400\<rparr>
         \<and> calls (snd (GetCredential env cr ctx r \<sigma>)) = calls \<sigma>
         \<and> fst (DeleteCredential env cr ctx r \<sigma>) =
           Inl \<lparr>Err = errors_New ''cannot delete credential without ID parameter'', Status = 400\<rparr>
         \<and> calls (snd (DeleteCredential env cr ctx r \<sigma>)) = calls \<sigma>"
  by (simp add: GetCredential_absent [OF assms] DeleteCredential_absent [OF assms])

theorem absent_id_is_bad_request_witness:
  "framework_GetParam sample_env [] IDParam = None
   \<and> fst (GetCredential sample_env \<lparr>service = succeeding_Service sample_credential\<rparr> []
            ([], sample_create) fresh_world)
       = Inl \<lparr>Err = errors_New ''cannot get credential without ID parameter'', Status = 400\<rparr>
   \<and> calls (snd (GetCredential sample_env \<lparr>service = succeeding_Service sample_credential\<rparr> []
            ([], sample_create) fresh_world)) = []
   \<and> fst (DeleteCredential sample_env \<lparr>service = succeeding_Service sample_credential\<rparr> []
            ([], sample_create) fresh_world)
       = Inl \<lparr>Err = errors_New ''cannot delete credential without ID parameter'', Status = 400\<rparr>
   \<and> calls (snd (DeleteCredential sample_env \<lparr>service = succeeding_Service sample_credential\<rparr> []
            ([], sample_create) fresh_world)) = []"
proof -
  have a: "framework_GetParam sample_env [] IDParam = None"
    by (simp add: sample_env_def)
  show ?thesis
    using a absent_id_is_bad_request [OF a,
        of "\<lparr>service = succeeding_Service sample_credential\<rparr>" "([], sample_create)" fresh_world]
    by (simp add: fresh_world_def)
qed

text \<open>
  Claim C4 as it is written fails for an id that is present and empty: the handlers
  test the pointer against \<^verbatim>\<open>nil\<close> only. With the path parameter \<^verbatim>\<open>id\<close> set to the empty
  string, \<^verbatim>\<open>GetCredential\<close> invokes the Credential Service with the empty id and
  responds with status 200, and \<^verbatim>\<open>DeleteCredential\<close> invokes it as well.
\<close>

theorem empty_id_reaches_service:
  "framework_GetParam sample_env [(''id'', [])] IDParam = Some []
   \<and> GetCredential sample_env \<lparr>service = succeeding_Service sample_credential\<rparr>
       [(''id'', [])] ([], sample_create) fresh_world =
     (Inr \<lparr>payload = Got \<lparr>GetCredentialResponse.ID = ''cred-1'',
                            GetCredentialResponse.Credential = sample_credential\<rparr>,
            code = 200\<rparr>,
      \<lparr>store = (), calls = [Called_GetCredential (GetCredentialRequest [])], logged = []\<rparr>)
   \<and> DeleteCredential sample_env \<lparr>service = succeeding_Service sample_credential\<rparr>
       [(''id'', [])] ([], sample_create) fresh_world =
     (Inr \<lparr>payload = Nil_data, code = 200\<rparr>,
      \<lparr>store = (), calls = [Called_DeleteCredential (DeleteCredentialRequest [])], logged = []\<rparr>)"
  by (simp add: GetCredential_def DeleteCredential_def effect_defs status_defs sample_defs param_defs)

text \<open>
  Claim C5. A failure of the Credential Service is classified by the operation: when
  \<^verbatim>\<open>GetCredential\<close> has an id and the service fails, the handler returns an error of status
  400; when one of the three filtered list calls fails, the handler returns an error of
  status 500.
\<close>

theorem lookup_failure_status:
  "(framework_GetParam env ctx IDParam = Some i
      \<and> fst (Service.GetCredential (service cr) (GetCredentialRequest i) (store \<sigma>)) = Inl e
    \<longrightarrow> isl (fst (GetCredential env cr ctx r \<sigma>))
        \<and> status_of (fst (GetCredential env cr ctx r \<sigma>)) = 400)
   \<and> (fst (Service.GetCredentialsByIssuer (service cr) (GetCredentialByIssuerRequest v) (store \<sigma>)) = Inl e
    \<longrightarrow> isl (fst (getCredentialsByIssuer env cr v ctx r \<sigma>))
        \<and> status_of (fst (getCredentialsByIssuer env cr v ctx r \<sigma>)) = 500)
   \<and> (fst (Service.GetCredentialsBySubject (service cr) (GetCredentialBySubjectRequest v) (store \<sigma>)) = Inl e
    \<longrightarrow> isl (fst (getCredentialsBySubject env cr v ctx r \<sigma>))
        \<and> status_of (fst (getCredentialsBySubject env cr v ctx r \<sigma>)) = 500)
   \<and> (fst (Service.GetCredentialsBySchema (service cr) (GetCredentialBySchemaRequest v) (store \<sigma>)) = Inl e
    \<longrightarrow> isl (fst (getCredentialsBySchema env cr v ctx r \<sigma>))
        \<and> status_of (fst (getCredentialsBySchema env cr v ctx r \<sigma>)) = 500)"
proof (intro conjI impI; (elim conjE)?)
  assume "framework_GetParam env ctx IDParam = Some i"
    and "fst (Service.GetCredential (service cr) (GetCredentialRequest i) (store \<sigma>)) = Inl e"
  then show "isl (fst (GetCredential env cr ctx r \<sigma>))"
    and "status_of (fst (GetCredential env cr ctx r \<sigma>)) = 400"
    by (cases "Service.GetCredential (service cr) (GetCredentialRequest i) (store \<sigma>)";
        simp add: GetCredential_failed status_of_def)+
next
  assume "fst (Service.GetCredentialsByIssuer (service cr) (GetCredentialByIssuerRequest v) (store \<sigma>)) = Inl e"
  then show "isl (fst (getCredentialsByIssuer env cr v ctx r \<sigma>))"
    and "status_of (fst (getCredentialsByIssuer env cr v ctx r \<sigma>)) = 500"
    by (cases "Service.GetCredentialsByIssuer (service cr) (GetCredentialByIssuerRequest v) (store \<sigma>)";
        simp add: getCredentialsByIssuer_failed status_of_def)+
next
  assume "fst (Service.GetCredentialsBySubject (service cr) (GetCredentialBySubjectRequest v) (store \<sigma>)) = Inl e"
  then show "isl (fst (getCredentialsBySubject env cr v ctx r \<sigma>))"
    and "status_of (fst (getCredentialsBySubject env cr v ctx r \<sigma>)) = 500"
    by (cases "Service.GetCredentialsBySubject (service cr) (GetCredentialBySubjectRequest v) (store \<sigma>)";
        simp add: getCredentialsBySubject_failed status_of_def)+
next
  assume "fst (Service.GetCredentialsBySchema (service cr) (GetCredentialBySchemaRequest v) (store \<sigma>)) = Inl e"
  then show "isl (fst (getCredentialsBySchema env cr v ctx r \<sigma>))"
    and "status_of (fst (getCredentialsBySchema env cr v ctx r \<sigma>)) = 500"
    by (cases "Service.GetCredentialsBySchema (service cr) (GetCredentialBySchemaRequest v) (store \<sigma>)";
        simp add: getCredentialsBySchema_failed status_of_def)+
qed

theorem lookup_failure_status_witness:
  "framework_GetParam sample_env [(''id'', ''cred-9'')] IDParam = Some ''cred-9''
   \<and> fst (Service.GetCredential (failing_Service (errors_New ''credential not found''))
            (GetCredentialRequest ''cred-9'') ()) = Inl (errors_New ''credential not found'')
   \<and> status_of (fst (GetCredential sample_env
        \<lparr>service = failing_Service (errors_New ''credential not found'')\<rparr>
        [(''id'', ''cred-9'')] ([], sample_create) fresh_world)) = 400
   \<and> status_of (fst (getCredentialsByIssuer sample_env
        \<lparr>service = failing_Service (errors_New ''credential not found'')\<rparr> ''did:a''
        [(''id'', ''cred-9'')] ([], sample_create) fresh_world)) = 500
   \<and> status_of (fst (getCredentialsBySubject sample_env
        \<lparr>service = failing_Service (errors_New ''credential not found'')\<rparr> ''did:a''
        [(''id'', ''cred-9'')] ([], sample_create) fresh_world)) = 500
   \<and> status_of (fst (getCredentialsBySchema sample_env
        \<lparr>service = failing_Service (errors_New ''credential not found'')\<rparr> ''did:a''
        [(''id'', ''cred-9'')] ([], sample_create) fresh_world)) = 500"
  using lookup_failure_status [of sample_env "[(''id'', ''cred-9'')]" "''cred-9''"
      "\<lparr>service = failing_Service (errors_New ''credential not found'')\<rparr>" fresh_world
      "errors_New ''credential not found''" "([], sample_create)" "''did:a''"]
  by (simp add: sample_env_def failing_Service_def param_defs)

text \<open>
  Claim C9. When \<^verbatim>\<open>GetCredential\<close> has an id and the Credential Service returns a
  credential, the response has status 200, its \<^verbatim>\<open>ID\<close> is the \<^verbatim>\<open>ID\<close> of that credential, and
  its credential is that credential, unchanged.
\<close>

theorem GetCredential_keeps_identifier:
  assumes "framework_GetParam env ctx IDParam = Some i"
    and "Service.GetCredential (service cr) (GetCredentialRequest i) (store \<sigma>) = (Inr got, s')"
  shows "fst (GetCredential env cr ctx r \<sigma>) =
           Inr \<lparr>payload = Got
                   \<lparr>GetCredentialResponse.ID =
                      VerifiableCredential.ID (credential_GetCredentialResponse.Credential got),
                    GetCredentialResponse.Credential = credential_GetCredentialResponse.Credential got\<rparr>,
                code = 200\<rparr>"
  by (simp add: GetCredential_found [OF assms])

theorem GetCredential_keeps_identifier_witness:
  "framework_GetParam sample_env [(''id'', ''cred-1'')] IDParam = Some ''cred-1''
   \<and> Service.GetCredential (succeeding_Service sample_credential) (GetCredentialRequest ''cred-1'') ()
       = (Inr \<lparr>credential_GetCredentialResponse.Credential = sample_credential\<rparr>, ())
   \<and> fst (GetCredential sample_env \<lparr>service = succeeding_Service sample_credential\<rparr>
            [(''id'', ''cred-1'')] ([], sample_create) fresh_world)
       = Inr \<lparr>payload = Got \<lparr>GetCredentialResponse.ID = ''cred-1'',
                              GetCredentialResponse.Credential = sample_credential\<rparr>,
              code = 200\<rparr>"
proof -
  have p: "framework_GetParam sample_env [(''id'', ''cred-1'')] IDParam = Some ''cred-1''"
    by (simp add: sample_env_def param_defs)
  have g: "Service.GetCredential (service \<lparr>service = succeeding_Service sample_credential\<rparr>)
             (GetCredentialRequest ''cred-1'') (store fresh_world)
           = (Inr \<lparr>credential_GetCredentialResponse.Credential = sample_credential\<rparr>, ())"
    by (simp add: succeeding_Service_def)
  show ?thesis
    using p g GetCredential_keeps_identifier [OF p g, of "([], sample_create)"]
    by (simp add: sample_credential_def)
qed

subsection \<open>What the error messages embed\<close>

text \<open>
  Claim C8, as the code has it. When a filtered list call fails, the message the handler
  composes, which is the message of the log entry and the message wrapped around the
  service's error, is the fixed text for the filter followed by \<^verbatim>\<open>SanitizeLog\<close> of the
  filter value: the value enters that message through the sanitizer only. The error of
  the Credential Service, which was called with the raw value, is wrapped and attached
  to the log entry as it came.
\<close>

theorem list_failure_message_sanitized:
  "(Service.GetCredentialsByIssuer (service cr) (GetCredentialByIssuerRequest v) (store \<sigma>) = (Inl e, s')
    \<longrightarrow> fst (getCredentialsByIssuer env cr v ctx r \<sigma>) =
          Inl \<lparr>Err = errors_Wrap e (''could not get credentials for issuer: '' @ util_SanitizeLog env v),
               Status = 500\<rparr>
        \<and> logged (snd (getCredentialsByIssuer env cr v ctx r \<sigma>)) = logged \<sigma> @
            [ErrorEntry (Some e) (''could not get credentials for issuer: '' @ util_SanitizeLog env v)])
   \<and> (Service.GetCredentialsBySubject (service cr) (GetCredentialBySubjectRequest v) (store \<sigma>) = (Inl e, s')
    \<longrightarrow> fst (getCredentialsBySubject env cr v ctx r \<sigma>) =
          Inl \<lparr>Err = errors_Wrap e (''could not get credentials for subject: '' @ util_SanitizeLog env v),
               Status = 500\<rparr>
        \<and> logged (snd (getCredentialsBySubject env cr v ctx r \<sigma>)) = logged \<sigma> @
            [ErrorEntry (Some e) (''could not get credentials for subject: '' @ util_SanitizeLog env v)])
   \<and> (Service.GetCredentialsBySchema (service cr) (GetCredentialBySchemaRequest v) (store \<sigma>) = (Inl e, s')
    \<longrightarrow> fst (getCredentialsBySchema env cr v ctx r \<sigma>) =
          Inl \<lparr>Err = errors_Wrap e (''could not get credentials for schema: '' @ util_SanitizeLog env v),
               Status = 500\<rparr>
        \<and> logged (snd (getCredentialsBySchema env cr v ctx r \<sigma>)) = logged \<sigma> @
            [ErrorEntry (Some e) (''could not get credentials for schema: '' @ util_SanitizeLog env v)])"
  by (simp add: getCredentialsByIssuer_failed getCredentialsBySubject_failed
        getCredentialsBySchema_failed)

theorem list_failure_message_sanitized_witness:
  "Service.GetCredentialsByIssuer (failing_Service (errors_New ''storage unavailable''))
       (GetCredentialByIssuerRequest (''did:a'' @ [CHR 0x0A] @ ''level=info forged'')) ()
     = (Inl (errors_New ''storage unavailable''), ())
   \<and> fst (getCredentialsByIssuer sample_env \<lparr>service = failing_Service (errors_New ''storage unavailable'')\<rparr>
            (''did:a'' @ [CHR 0x0A] @ ''level=info forged'') [] ([], sample_create) fresh_world)
     = Inl \<lparr>Err = errors_Wrap (errors_New ''storage unavailable'')
                     ''could not get credentials for issuer: did:alevel=info forged'',
            Status = 500\<rparr>
   \<and> logged (snd (getCredentialsByIssuer sample_env
            \<lparr>service = failing_Service (errors_New ''storage unavailable'')\<rparr>
            (''did:a'' @ [CHR 0x0A] @ ''level=info forged'') [] ([], sample_create) fresh_world))
     = [ErrorEntry (Some (errors_New ''storage unavailable''))
          ''could not get credentials for issuer: did:alevel=info forged'']
   \<and> logged (snd (getCredentialsBySubject sample_env
            \<lparr>service = failing_Service (errors_New ''storage unavailable'')\<rparr>
            (''did:a'' @ [CHR 0x0A] @ ''level=info forged'') [] ([], sample_create) fresh_world))
     = [ErrorEntry (Some (errors_New ''storage unavailable''))
          ''could not get credentials for subject: did:alevel=info forged'']
   \<and> logged (snd (getCredentialsBySchema sample_env
            \<lparr>service = failing_Service (errors_New ''storage unavailable'')\<rparr>
            (''did:a'' @ [CHR 0x0A] @ ''level=info forged'') [] ([], sample_create) fresh_world))
     = [ErrorEntry (Some (errors_New ''storage unavailable''))
          ''could not get credentials for schema: did:alevel=info forged'']"
  using list_failure_message_sanitized [of
      "\<lparr>service = failing_Service (errors_New ''storage unavailable'')\<rparr>"
      "''did:a'' @ [CHR 0x0A] @ ''level=info forged''" fresh_world
      "errors_New ''storage unavailable''" "()" sample_env "[]" "([], sample_create)"]
  by (simp add: sample_env_def sample_SanitizeLog_def failing_Service_def fresh_world_def)

text \<open>
  Claim C8 as it is written fails when the error of the Credential Service quotes the
  value the service was called with: the handler passes the raw filter value to the
  service and wraps and logs the service's error unchanged. With an issuer that holds a
  line feed, the text of the returned error and the error attached to the log entry
  contain the issuer with its line feed, next to the sanitized form in the handler's
  own message.
\<close>

theorem echoed_filter_value_is_raw:
  "util_SanitizeLog sample_env (''did:a'' @ [CHR 0x0A] @ ''forged'') = ''did:aforged''
   \<and> GetCredentials sample_env \<lparr>service = echoing_Service\<rparr> []
        ([(''issuer'', ''did:a'' @ [CHR 0x0A] @ ''forged'')], sample_create) fresh_world
     = (Inl \<lparr>Err = errors_Wrap
                      (errors_New (''no credentials for issuer did:a'' @ [CHR 0x0A] @ ''forged''))
                      ''could not get credentials for issuer: did:aforged'',
               Status = 500\<rparr>,
        \<lparr>store = (),
         calls = [Called_GetCredentialsByIssuer
                    (GetCredentialByIssuerRequest (''did:a'' @ [CHR 0x0A] @ ''forged''))],
         logged = [ErrorEntry
                     (Some (errors_New (''no credentials for issuer did:a'' @ [CHR 0x0A] @ ''forged'')))
                     ''could not get credentials for issuer: did:aforged'']\<rparr>)
   \<and> Error (errors_Wrap
               (errors_New (''no credentials for issuer did:a'' @ [CHR 0x0A] @ ''forged''))
               ''could not get credentials for issuer: did:aforged'')
     = ''could not get credentials for issuer: did:aforged: no credentials for issuer did:a''
         @ [CHR 0x0A] @ ''forged''
   \<and> sublist (''did:a'' @ [CHR 0x0A] @ ''forged'')
        (Error (errors_Wrap
               (errors_New (''no credentials for issuer did:a'' @ [CHR 0x0A] @ ''forged''))
               ''could not get credentials for issuer: did:aforged''))"
proof -
  have "sublist (''did:a'' @ [CHR 0x0A] @ ''forged'')
          (''could not get credentials for issuer: did:aforged: no credentials for issuer ''
             @ (''did:a'' @ [CHR 0x0A] @ ''forged'') @ [])"
    by (rule sublist_appendI)
  then show ?thesis
    by (simp add: GetCredentials_def getCredentialsByIssuer_def effect_defs status_defs
          sample_defs param_defs Let_def)
qed

text \<open>
  Claim C10. When \<^verbatim>\<open>GetCredential\<close> or \<^verbatim>\<open>DeleteCredential\<close> has an id and the
  Credential Service fails, the message the handler logs and wraps around the service's
  error is "could not get credential with id: " (for delete, "could not delete
  credential with id: ") followed by the id as the caller gave it, whatever
  \<^verbatim>\<open>SanitizeLog\<close> would make of it. In the witness the id holds a line feed, which the
  sample sanitizer would drop and the message keeps.
\<close>

theorem id_failure_message_verbatim:
  assumes "framework_GetParam env ctx IDParam = Some i"
  shows "(Service.GetCredential (service cr) (GetCredentialRequest i) (store \<sigma>) = (Inl e, s')
          \<longrightarrow> fst (GetCredential env cr ctx r \<sigma>) =
                Inl \<lparr>Err = errors_Wrap e (''could not get credential with id: '' @ i), Status = 400\<rparr>
              \<and> logged (snd (GetCredential env cr ctx r \<sigma>)) = logged \<sigma> @
                  [ErrorEntry (Some e) (''could not get credential with id: '' @ i)])
       \<and> (Service.DeleteCredential (service cr) (DeleteCredentialRequest i) (store \<sigma>) = (Some e, s')
          \<longrightarrow> fst (DeleteCredential env cr ctx r \<sigma>) =
                Inl \<lparr>Err = errors_Wrap e (''could not delete credential with id: '' @ i), Status = 500\<rparr>
              \<and> logged (snd (DeleteCredential env cr ctx r \<sigma>)) = logged \<sigma> @
                  [ErrorEntry (Some e) (''could not delete credential with id: '' @ i)])"
  by (simp add: GetCredential_failed [OF assms] DeleteCredential_failed [OF assms])

theorem id_failure_message_verbatim_witness:
  "framework_GetParam sample_env [(''id'', ''cred'' @ [CHR 0x0A] @ ''forged'')] IDParam
     = Some (''cred'' @ [CHR 0x0A] @ ''forged'')
   \<and> util_SanitizeLog sample_env (''cred'' @ [CHR 0x0A] @ ''forged'') = ''credforged''
   \<and> Service.GetCredential (failing_Service (errors_New ''credential not found''))
       (GetCredentialRequest (''cred'' @ [CHR 0x0A] @ ''forged'')) ()
     = (Inl (errors_New ''credential not found''), ())
   \<and> Service.DeleteCredential (failing_Service (errors_New ''credential not found''))
       (DeleteCredentialRequest (''cred'' @ [CHR 0x0A] @ ''forged'')) ()
     = (Some (errors_New ''credential not found''), ())
   \<and> logged (snd (GetCredential sample_env
        \<lparr>service = failing_Service (errors_New ''credential not found'')\<rparr>
        [(''id'', ''cred'' @ [CHR 0x0A] @ ''forged'')] ([], sample_create) fresh_world))
     = [ErrorEntry (Some (errors_New ''credential not found''))
          (''could not get credential with id: cred'' @ [CHR 0x0A] @ ''forged'')]
   \<and> logged (snd (DeleteCredential sample_env
        \<lparr>service = failing_Service (errors_New ''credential not found'')\<rparr>
        [(''id'', ''cred'' @ [CHR 0x0A] @ ''forged'')] ([], sample_create) fresh_world))
     = [ErrorEntry (Some (errors_New ''credential not found''))
          (''could not delete credential with id: cred'' @ [CHR 0x0A] @ ''forged'')]"
proof -
  have p: "framework_GetParam sample_env [(''id'', ''cred'' @ [CHR 0x0A] @ ''forged'')] IDParam
             = Some (''cred'' @ [CHR 0x0A] @ ''forged'')"
    by (simp add: sample_env_def param_defs)
  show ?thesis
    using p id_failure_message_verbatim [OF p,
        of "\<lparr>service = failing_Service (errors_New ''credential not found'')\<rparr>" fresh_world
          "errors_New ''credential not found''" "()" "([], sample_create)"]
    by (simp add: sample_env_def sample_SanitizeLog_def failing_Service_def fresh_world_def)
qed

end
